theory Spec2Isabelle
  imports Main
begin

section \<open>Values that cross the transport\<close>

text \<open>
  The data handler of \<^verbatim>\<open>App.tsx\<close> receives \<^verbatim>\<open>data\<close> of unknown type and inspects it
  with \<^verbatim>\<open>typeof\<close>, property access and truthiness. The model therefore carries
  JavaScript values, not the TypeScript type \<^verbatim>\<open>WireMessage\<close>. Numbers are the integral
  ones. An object is its list of own properties and its prototype; the chain of
  prototypes ends in \<open>JNull\<close>, which stands for \<^verbatim>\<open>Object.prototype\<close> and what lies
  behind it (none of the keys read by the program is found there).
\<close>

datatype jsval =
    JUndefined
  | JNull
  | JBool bool
  | JNum int
  | JStr string
  | JArr "jsval list"
  | JObj "(string \<times> jsval) list" jsval

datatype js_error = TypeError

text \<open>Truthiness, as \<^verbatim>\<open>!v\<close> tests it.\<close>

fun truthy :: "jsval \<Rightarrow> bool" where
  "truthy JUndefined = False"
| "truthy JNull = False"
| "truthy (JBool b) = b"
| "truthy (JNum n) = (n \<noteq> 0)"
| "truthy (JStr s) = (s \<noteq> [])"
| "truthy (JArr _) = True"
| "truthy (JObj _ _) = True"

text \<open>
  Property access \<^verbatim>\<open>v.k\<close> for the keys the handler reads (\<^verbatim>\<open>text\<close>, \<^verbatim>\<open>signature\<close>,
  \<^verbatim>\<open>publicKey\<close>). It throws on \<^verbatim>\<open>null\<close> and \<^verbatim>\<open>undefined\<close> and is \<^verbatim>\<open>undefined\<close> on a
  boolean, a number or an array. On an object it is the own property when there is one
  (whatever its value), and otherwise the property of the prototype, along the chain.
\<close>

fun chainLookup :: "jsval \<Rightarrow> string \<Rightarrow> jsval" where
  "chainLookup (JObj own proto) k =
     (case map_of own k of Some v \<Rightarrow> v | None \<Rightarrow> chainLookup proto k)"
| "chainLookup v k = JUndefined"

fun getProp :: "jsval \<Rightarrow> string \<Rightarrow> js_error + jsval" where
  "getProp JUndefined k = Inl TypeError"
| "getProp JNull k = Inl TypeError"
| "getProp v k = Inr (chainLookup v k)"

section \<open>The crypto collaborator\<close>

text \<open>
  \<^verbatim>\<open>openpgp\<close> is an external library. Each of its operations used by the program is a
  field of the record below; \<open>None\<close> is a thrown exception or a rejected promise. The
  parsed key, signature and message objects are opaque: type parameters.
  \<^verbatim>\<open>verify\<close> yields \<^verbatim>\<open>verification.signatures\<close>, one awaited \<^verbatim>\<open>verified\<close> per entry.
\<close>

datatype 'a promise = Resolved 'a | Rejected

record ('sk, 'pk, 'sg, 'm) openpgp =
  readPrivateKey :: "jsval \<Rightarrow> 'sk option"
  createMessage :: "jsval \<Rightarrow> 'm option"
  sign :: "'m \<Rightarrow> 'sk \<Rightarrow> string option"
  readSignature :: "jsval \<Rightarrow> 'sg option"
  readKey :: "jsval \<Rightarrow> 'pk option"
  verify :: "'m \<Rightarrow> 'sg \<Rightarrow> 'pk \<Rightarrow> bool promise list option"
  getFingerprint :: "'pk \<Rightarrow> string option"

section \<open>Program state\<close>

record StoredKeypair =
  publicKeyArmored :: string
  privateKeyArmored :: string

datatype sender = Me | Peer

text \<open>
  \<^verbatim>\<open>ChatMessage\<close>. The field \<^verbatim>\<open>text\<close> is typed \<^verbatim>\<open>string\<close> in the source, but the data
  handler stores \<^verbatim>\<open>payload.text\<close> there after a truthiness test only, so at run time
  it is any value. \<^verbatim>\<open>verified?: boolean\<close> is an optional boolean.
\<close>

record ChatMessage =
  msg_id :: string
  msg_sender :: sender
  msg_text :: jsval
  msg_timestamp :: nat
  msg_verified :: "bool option"

text \<open>
  What \<^verbatim>\<open>addMessage\<close> reads from the clock and the random generator: the value of the
  template \<^verbatim>\<open>`${Date.now()}-${Math.random().toString(16).slice(2)}`\<close> and of
  \<^verbatim>\<open>new Date()\<close>.
\<close>

record stamp =
  fresh_id :: string
  now :: nat

text \<open>
  A \<^verbatim>\<open>DataConnection\<close> of the transport: its \<^verbatim>\<open>.peer\<close> and its \<^verbatim>\<open>.open\<close> flag. Every
  connection object the program ever holds went through \<^verbatim>\<open>attachConnection\<close>, so every
  one of them carries the four handlers; a handle is the object's index in
  \<open>connections\<close>.
\<close>

record DataConnection =
  conn_peer :: string
  conn_open :: bool

text \<open>
  The calls the program makes on the transport, in the order it makes them. The last
  field of the state, \<open>timeouts\<close>, holds the delays of the pending \<^verbatim>\<open>setTimeout\<close>
  callbacks; the only callback the program ever schedules is
  \<^verbatim>\<open>() => setStatusMessage('')\<close>.
\<close>

datatype transport_call =
    Close nat
  | Connect string
  | Send nat jsval

record App =
  peerRef :: "string option"
  connectionRef :: "nat option"
  peerId :: string
  targetPeerId :: string
  isConnected :: bool
  isConnecting :: bool
  statusMessage :: string
  messages :: "ChatMessage list"
  keypair :: "StoredKeypair option"
  peerReady :: bool
  connections :: "DataConnection list"
  calls :: "transport_call list"
  timeouts :: "nat list"

definition addMessage :: "sender \<Rightarrow> jsval \<Rightarrow> bool option \<Rightarrow> stamp \<Rightarrow> App \<Rightarrow> App" where
  "addMessage sender text verified s st =
     st\<lparr>messages := messages st @
          [\<lparr>msg_id = fresh_id s, msg_sender = sender, msg_text = text,
            msg_timestamp = now s, msg_verified = verified\<rparr>]\<rparr>"

section \<open>The data handler\<close>

text \<open>
  The \<^verbatim>\<open>try\<close> block of \<^verbatim>\<open>handleIncoming\<close> up to \<^verbatim>\<open>publicKey.getFingerprint()\<close>:
  \<open>None\<close> when any statement of it throws or any awaited promise rejects (the
  destructuring \<^verbatim>\<open>const [{ verified }] = verification.signatures\<close> throws on an empty
  array), otherwise the fingerprint. The value \<^verbatim>\<open>await verified\<close> resolves to is not
  looked at.
\<close>

definition verifyEnvelope ::
  "('sk, 'pk, 'sg, 'm) openpgp \<Rightarrow> jsval \<Rightarrow> jsval \<Rightarrow> jsval \<Rightarrow> string option" where
  "verifyEnvelope pgp text armoredSignature armoredKey =
     (case createMessage pgp text of
        None \<Rightarrow> None
      | Some message \<Rightarrow>
     (case readSignature pgp armoredSignature of
        None \<Rightarrow> None
      | Some signature \<Rightarrow>
     (case readKey pgp armoredKey of
        None \<Rightarrow> None
      | Some publicKey \<Rightarrow>
     (case verify pgp message signature publicKey of
        None \<Rightarrow> None
      | Some signatures \<Rightarrow>
     (case signatures of
        [] \<Rightarrow> None
      | verified # _ \<Rightarrow>
     (case verified of
        Rejected \<Rightarrow> None
      | Resolved _ \<Rightarrow> getFingerprint pgp publicKey))))))"

text \<open>
  \<^verbatim>\<open>handleIncoming\<close> for a connection whose \<^verbatim>\<open>.peer\<close> is \<open>peer\<close>. \<open>stringify\<close> is
  \<^verbatim>\<open>JSON.stringify\<close> of the runtime. The result is \<open>Inl\<close> when the async function
  rejects (property access on \<^verbatim>\<open>null\<close> or \<^verbatim>\<open>undefined\<close>, outside the \<^verbatim>\<open>try\<close>). All
  state updates of the function come after its last \<^verbatim>\<open>await\<close> and use functional
  setters, so \<open>st\<close> is the state at that moment.
\<close>

definition handleIncoming ::
  "('sk, 'pk, 'sg, 'm) openpgp \<Rightarrow> (jsval \<Rightarrow> string) \<Rightarrow> string \<Rightarrow> jsval \<Rightarrow> stamp \<Rightarrow> App
     \<Rightarrow> js_error + App" where
  "handleIncoming pgp stringify peer data s st =
     (case data of
        JStr _ \<Rightarrow> Inr (addMessage Peer data (Some False) s st)
      | _ \<Rightarrow>
        (case (getProp data ''text'', getProp data ''signature'', getProp data ''publicKey'') of
           (Inr text, Inr signature, Inr publicKey) \<Rightarrow>
             if \<not> truthy text \<or> \<not> truthy signature \<or> \<not> truthy publicKey
             then Inr (addMessage Peer (JStr (stringify data)) (Some False) s st)
             else (case verifyEnvelope pgp text signature publicKey of
                     Some fingerprint \<Rightarrow>
                       Inr (addMessage Peer text (Some True) s
                             (if fingerprint \<noteq> peer
                              then st\<lparr>statusMessage := ''Peer fingerprint mismatch.''\<rparr>
                              else st))
                   | None \<Rightarrow> Inr (addMessage Peer text (Some False) s st))
         | _ \<Rightarrow> Inl TypeError))"

section \<open>The connection lifecycle\<close>

text \<open>
  \<^verbatim>\<open>String.prototype.trim\<close> on the characters a \<open>char\<close> can hold: tab, line feed,
  vertical tab, form feed, carriage return, space and no-break space.
\<close>

definition is_space :: "char \<Rightarrow> bool" where
  "is_space c = (of_char c \<in> {9, 10, 11, 12, 13, 32, 160 :: nat})"

definition trim :: "string \<Rightarrow> string" where
  "trim s = rev (dropWhile is_space (rev (dropWhile is_space s)))"

text \<open>
  \<^verbatim>\<open>connectionRef.current.open\<close> on a handle. The program only ever holds handles of
  existing connection objects; a handle out of range reads as not open.
\<close>

definition is_open :: "App \<Rightarrow> nat \<Rightarrow> bool" where
  "is_open st c = (c < length (connections st) \<and> conn_open (connections st ! c))"

definition set_open :: "nat \<Rightarrow> bool \<Rightarrow> App \<Rightarrow> App" where
  "set_open c b st =
     (if c < length (connections st)
      then st\<lparr>connections := (connections st)[c := (connections st ! c)\<lparr>conn_open := b\<rparr>]\<rparr>
      else st)"

text \<open>The handlers \<^verbatim>\<open>attachConnection\<close> registers for \<^verbatim>\<open>open\<close>, \<^verbatim>\<open>close\<close> and \<^verbatim>\<open>error\<close>.\<close>

definition onOpen :: "App \<Rightarrow> App" where
  "onOpen st = st\<lparr>isConnected := True, isConnecting := False, statusMessage := []\<rparr>"

definition onClose :: "App \<Rightarrow> App" where
  "onClose st =
     st\<lparr>isConnected := False, isConnecting := False,
        statusMessage := ''Connection closed.'', connectionRef := None\<rparr>"

definition onError :: "string \<Rightarrow> App \<Rightarrow> App" where
  "onError message st =
     st\<lparr>isConnected := False, isConnecting := False,
        statusMessage := (if message \<noteq> [] then message else ''Connection error.''),
        connectionRef := None\<rparr>"

text \<open>
  \<^verbatim>\<open>connectionRef.current.close()\<close>. The method is the transport's (peerjs): the call
  is recorded; on an open connection it lowers \<^verbatim>\<open>.open\<close> and emits \<^verbatim>\<open>close\<close> before it
  returns, which runs the handler above; on a connection that is not open it emits
  nothing.
\<close>

definition close :: "nat \<Rightarrow> App \<Rightarrow> App" where
  "close c st =
     (let st1 = st\<lparr>calls := calls st @ [Close c]\<rparr>
      in if is_open st1 c then onClose (set_open c False st1) else st1)"

text \<open>The transport makes a new connection object, not open yet, for the remote \<open>p\<close>.\<close>

definition new_connection :: "string \<Rightarrow> App \<Rightarrow> nat \<times> App" where
  "new_connection p st =
     (length (connections st),
      st\<lparr>connections := connections st @ [\<lparr>conn_peer = p, conn_open = False\<rparr>]\<rparr>)"

text \<open>
  \<^verbatim>\<open>attachConnection\<close>: \<open>None\<close> is \<^verbatim>\<open>undefined\<close>. Registering the four handlers is
  implicit: the events below run them for every connection object.
\<close>

definition attachConnection :: "nat option \<Rightarrow> App \<Rightarrow> App" where
  "attachConnection connection st =
     (case connection of
        None \<Rightarrow> st\<lparr>statusMessage := ''Connection failed to start.'', isConnecting := False\<rparr>
      | Some c \<Rightarrow> st\<lparr>connectionRef := Some c\<rparr>)"

text \<open>The handlers of the endpoint: \<^verbatim>\<open>peer.on\<close> for \<^verbatim>\<open>open\<close>, \<^verbatim>\<open>connection\<close>, \<^verbatim>\<open>error\<close>.\<close>

definition onPeerOpen :: "App \<Rightarrow> App" where
  "onPeerOpen st = st\<lparr>peerReady := True\<rparr>"

definition close_if_open :: "App \<Rightarrow> App" where
  "close_if_open st =
     (case connectionRef st of
        None \<Rightarrow> st
      | Some c \<Rightarrow> if is_open st c then close c st else st)"

definition onPeerConnection :: "nat \<Rightarrow> App \<Rightarrow> App" where
  "onPeerConnection connection st =
     (let st1 = close_if_open st;
          st2 = st1\<lparr>targetPeerId :=
                      (if connection < length (connections st1)
                       then conn_peer (connections st1 ! connection) else [])\<rparr>;
          st3 = st2\<lparr>isConnecting := False\<rparr>
      in attachConnection (Some connection) st3)"

definition onPeerError :: "string \<Rightarrow> App \<Rightarrow> App" where
  "onPeerError message st =
     st\<lparr>statusMessage := (if message \<noteq> [] then message else ''Peer error.'')\<rparr>"

text \<open>
  \<^verbatim>\<open>handleConnect\<close>. \<open>yields\<close> tells whether \<^verbatim>\<open>peerRef.current.connect\<close> returns a
  connection object or \<^verbatim>\<open>undefined\<close>.
\<close>

definition connect :: "string \<Rightarrow> bool \<Rightarrow> App \<Rightarrow> nat option \<times> App" where
  "connect target yields st =
     (let st1 = st\<lparr>calls := calls st @ [Connect target]\<rparr>
      in if yields then (case new_connection target st1 of (c, st2) \<Rightarrow> (Some c, st2))
         else (None, st1))"

definition handleConnect :: "bool \<Rightarrow> App \<Rightarrow> App" where
  "handleConnect yields st =
     (if peerRef st = None \<or> trim (targetPeerId st) = [] then st
      else if \<not> peerReady st then st\<lparr>statusMessage := ''Peer not ready yet.''\<rparr>
      else
        (let st1 = close_if_open st;
             st2 = st1\<lparr>isConnecting := True, statusMessage := []\<rparr>
         in case connect (trim (targetPeerId st)) yields st2 of
              (connection, st3) \<Rightarrow> attachConnection connection st3))"

definition handleDisconnect :: "App \<Rightarrow> App" where
  "handleDisconnect st =
     (let st1 = (case connectionRef st of None \<Rightarrow> st | Some c \<Rightarrow> close c st)
      in st1\<lparr>isConnected := False, isConnecting := False\<rparr>)"

section \<open>Sending\<close>

text \<open>
  The \<^verbatim>\<open>try\<close> block of \<^verbatim>\<open>handleSendMessage\<close> up to the \<^verbatim>\<open>payload\<close> object: \<open>None\<close>
  when \<^verbatim>\<open>readPrivateKey\<close>, \<^verbatim>\<open>createMessage\<close> or \<^verbatim>\<open>sign\<close> throws.
\<close>

definition signedPayload ::
  "('sk, 'pk, 'sg, 'm) openpgp \<Rightarrow> StoredKeypair \<Rightarrow> string \<Rightarrow> jsval option" where
  "signedPayload pgp kp text =
     (case readPrivateKey pgp (JStr (privateKeyArmored kp)) of
        None \<Rightarrow> None
      | Some privateKey \<Rightarrow>
     (case createMessage pgp (JStr text) of
        None \<Rightarrow> None
      | Some message \<Rightarrow>
     (case sign pgp message privateKey of
        None \<Rightarrow> None
      | Some signature \<Rightarrow>
          Some (JObj [(''text'', JStr text), (''signature'', JStr signature),
                      (''publicKey'', JStr (publicKeyArmored kp))] JNull))))"

text \<open>
  What \<^verbatim>\<open>handleSendMessage\<close> does after its last \<^verbatim>\<open>await\<close>, on the state of that
  moment: the \<^verbatim>\<open>catch\<close> when signing threw; otherwise \<^verbatim>\<open>connectionRef.current.send\<close>,
  which is a \<^verbatim>\<open>TypeError\<close> inside the \<^verbatim>\<open>try\<close> when the reference is \<^verbatim>\<open>null\<close> by then,
  and \<^verbatim>\<open>addMessage\<close>.
\<close>

definition sendSigned :: "jsval option \<Rightarrow> string \<Rightarrow> stamp \<Rightarrow> App \<Rightarrow> App" where
  "sendSigned payload text s st =
     (case payload of
        None \<Rightarrow> st\<lparr>statusMessage := ''Failed to sign message.''\<rparr>
      | Some p \<Rightarrow>
          (case connectionRef st of
             None \<Rightarrow> st\<lparr>statusMessage := ''Failed to sign message.''\<rparr>
           | Some c \<Rightarrow>
               addMessage Me (JStr text) (Some True) s (st\<lparr>calls := calls st @ [Send c p]\<rparr>)))"

text \<open>\<^verbatim>\<open>handleSendMessage\<close>, run with no other handler in between.\<close>

definition handleSendMessage ::
  "('sk, 'pk, 'sg, 'm) openpgp \<Rightarrow> string \<Rightarrow> stamp \<Rightarrow> App \<Rightarrow> App" where
  "handleSendMessage pgp text s st =
     (case connectionRef st of
        None \<Rightarrow> st
      | Some c \<Rightarrow>
          if \<not> is_open st c then st
          else (case keypair st of
                  None \<Rightarrow> st
                | Some kp \<Rightarrow> sendSigned (signedPayload pgp kp text) text s st))"

text \<open>
  \<^verbatim>\<open>handleSubmit\<close> of \<^verbatim>\<open>MessageComposer\<close>, whose \<^verbatim>\<open>disabled\<close> is \<^verbatim>\<open>!isConnected\<close>; \<open>text\<close>
  is the content of the input field.
\<close>

definition handleSubmit ::
  "('sk, 'pk, 'sg, 'm) openpgp \<Rightarrow> string \<Rightarrow> stamp \<Rightarrow> App \<Rightarrow> App" where
  "handleSubmit pgp text s st =
     (if trim text = [] \<or> \<not> isConnected st then st
      else handleSendMessage pgp (trim text) s st)"

section \<open>The status timer\<close>

text \<open>
  \<^verbatim>\<open>handleCopyPeerId\<close> is the one place of the program that shows an advisory for a
  time only: it schedules the callback that clears the status after 2000 ms.
  \<open>written\<close> tells whether \<^verbatim>\<open>navigator.clipboard.writeText\<close> resolves. \<open>onTimeout\<close> is
  the oldest pending callback firing.
\<close>

definition handleCopyPeerId :: "bool \<Rightarrow> App \<Rightarrow> App" where
  "handleCopyPeerId written st =
     (if peerId st = [] then st
      else if written
      then st\<lparr>statusMessage := ''Peer ID copied.'', timeouts := timeouts st @ [2000]\<rparr>
      else st\<lparr>statusMessage := ''Clipboard unavailable.''\<rparr>)"

definition onTimeout :: "App \<Rightarrow> App" where
  "onTimeout st =
     (case timeouts st of
        [] \<Rightarrow> st
      | _ # later \<Rightarrow> st\<lparr>statusMessage := [], timeouts := later\<rparr>)"

section \<open>Events of the transport\<close>

text \<open>
  The transport calls the registered handlers one at a time. \<open>PeerConnection p\<close> is an
  inbound offer from \<open>p\<close>, for which the transport has made a connection object; the
  transport raises the \<^verbatim>\<open>.open\<close> flag before it emits \<^verbatim>\<open>open\<close> and lowers it before it
  emits \<^verbatim>\<open>close\<close>. A rejection of \<^verbatim>\<open>handleIncoming\<close> is dropped
  (\<^verbatim>\<open>void handleIncoming()\<close>); a data event stands for the handler run up to its end.
\<close>

datatype transport_event =
    PeerOpen
  | PeerConnection string
  | PeerError string
  | ConnOpen nat
  | ConnData nat jsval stamp
  | ConnClose nat
  | ConnError nat string

definition deliver ::
  "('sk, 'pk, 'sg, 'm) openpgp \<Rightarrow> (jsval \<Rightarrow> string) \<Rightarrow> App \<Rightarrow> transport_event \<Rightarrow> App" where
  "deliver pgp stringify st ev =
     (case ev of
        PeerOpen \<Rightarrow> onPeerOpen st
      | PeerConnection p \<Rightarrow> (case new_connection p st of (c, st1) \<Rightarrow> onPeerConnection c st1)
      | PeerError m \<Rightarrow> onPeerError m st
      | ConnOpen c \<Rightarrow> if c < length (connections st) then onOpen (set_open c True st) else st
      | ConnData c d s \<Rightarrow>
          if c < length (connections st)
          then (case handleIncoming pgp stringify (conn_peer (connections st ! c)) d s st of
                  Inl _ \<Rightarrow> st
                | Inr st1 \<Rightarrow> st1)
          else st
      | ConnClose c \<Rightarrow> if c < length (connections st) then onClose (set_open c False st) else st
      | ConnError c m \<Rightarrow> if c < length (connections st) then onError m st else st)"

definition deliver_all ::
  "('sk, 'pk, 'sg, 'm) openpgp \<Rightarrow> (jsval \<Rightarrow> string) \<Rightarrow> transport_event list \<Rightarrow> App \<Rightarrow> App" where
  "deliver_all pgp stringify evs st = foldl (deliver pgp stringify) st evs"

section \<open>A small instance of the collaborators\<close>

text \<open>
  An instance of the crypto record on strings, to run the handlers on concrete inputs:
  a key is any non-empty string and is its own private key, the signature of \<open>m\<close> under
  \<open>k\<close> is \<open>sig:k:m\<close>, and checking a signature compares it with the one recomputed.
\<close>

definition armored :: "jsval \<Rightarrow> string option" where
  "armored v = (case v of JStr s \<Rightarrow> (if s = [] then None else Some s) | _ \<Rightarrow> None)"

definition toy_pgp :: "(string, string, string, string) openpgp" where
  "toy_pgp =
     \<lparr>readPrivateKey = armored,
      createMessage = (\<lambda>v. case v of JStr s \<Rightarrow> Some s | _ \<Rightarrow> None),
      sign = (\<lambda>m k. Some (''sig:'' @ k @ '':'' @ m)),
      readSignature = (\<lambda>v. case armored v of
                              None \<Rightarrow> None
                            | Some s \<Rightarrow> if take 4 s = ''sig:'' then Some (drop 4 s) else None),
      readKey = armored,
      verify = (\<lambda>m sg k. Some [if sg = k @ '':'' @ m then Resolved True else Rejected]),
      getFingerprint = (\<lambda>k. Some (''fp-'' @ k))\<rparr>"

definition toy_stringify :: "jsval \<Rightarrow> string" where
  "toy_stringify v = ''[json]''"

definition toy_keys :: StoredKeypair where
  "toy_keys = \<lparr>publicKeyArmored = ''alice'', privateKeyArmored = ''alice''\<rparr>"

definition noon :: stamp where
  "noon = \<lparr>fresh_id = ''1-a'', now = 1\<rparr>"

text \<open>
  The state once the keys are set up, the endpoint exists and has reported \<^verbatim>\<open>open\<close>,
  and nothing else has happened.
\<close>

definition ready :: App where
  "ready =
     \<lparr>peerRef = Some ''fp-alice'', connectionRef = None, peerId = ''fp-alice'',
      targetPeerId = [], isConnected = False, isConnecting = False, statusMessage = [],
      messages = [], keypair = Some toy_keys, peerReady = True, connections = [],
      calls = [], timeouts = []\<rparr>"

text \<open>The same with one open connection to \<open>p\<close>, tracked by \<^verbatim>\<open>connectionRef\<close>.\<close>

definition talking :: "string \<Rightarrow> App" where
  "talking p =
     ready\<lparr>connectionRef := Some 0, targetPeerId := p, isConnected := True,
           connections := [\<lparr>conn_peer = p, conn_open = True\<rparr>], calls := [Connect p]\<rparr>"

text \<open>
  Three events from the transport: two inbound offers, the second arriving while the
  first is still pending, then the first one opens.
\<close>

definition pending_replaced :: "transport_event list" where
  "pending_replaced = [PeerConnection ''fp-bob'', PeerConnection ''fp-carol'', ConnOpen 0]"

text \<open>The same state with a private key that does not parse.\<close>

definition corrupt_key :: App where
  "corrupt_key =
     (talking ''fp-bob'')
       \<lparr>keypair := Some \<lparr>publicKeyArmored = ''alice'', privateKeyArmored = []\<rparr>\<rparr>"

section \<open>Inbound payloads\<close>

subsection \<open>Classification\<close>

lemma getProp_defined:
  assumes "data \<noteq> JNull" and "data \<noteq> JUndefined"
  shows "getProp data k = Inr (chainLookup data k)"
  using assms by (cases data) simp_all

text \<open>
  \<^verbatim>\<open>null\<close> and \<^verbatim>\<open>undefined\<close> make the handler reject at \<^verbatim>\<open>payload.text\<close>, before the
  \<^verbatim>\<open>try\<close>: nothing is displayed for them.
\<close>

lemma nullish_rejects:
  "handleIncoming pgp stringify peer JNull s st = Inl TypeError"
  "handleIncoming pgp stringify peer JUndefined s st = Inl TypeError"
  by (simp_all add: handleIncoming_def)

text \<open>A property found on the prototype only is read like an own one.\<close>

lemma inherited_fields_are_read:
  "getProp (JObj [] (JObj [(''text'', JStr ''hello'')] JNull)) ''text'' = Inr (JStr ''hello'')"
  by simp

text \<open>
  C4 as stated fails: here all three fields are strings and the signature is even the
  right one for the empty text (verification would succeed), yet the log gets the
  JSON text of the payload with \<^verbatim>\<open>verified = false\<close>, because \<^verbatim>\<open>!payload.text\<close> holds
  for the empty string.
\<close>

theorem strings_with_empty_text_counterexample:
  "handleIncoming toy_pgp toy_stringify ''fp-carol''
     (JObj [(''text'', JStr []), (''signature'', JStr ''sig:carol:''),
            (''publicKey'', JStr ''carol'')] JNull) noon ready
   = Inr (ready\<lparr>messages :=
            [\<lparr>msg_id = ''1-a'', msg_sender = Peer, msg_text = JStr ''[json]'',
              msg_timestamp = 1, msg_verified = Some False\<rparr>]\<rparr>)
   \<and> verifyEnvelope toy_pgp (JStr []) (JStr ''sig:carol:'') (JStr ''carol'') = Some ''fp-carol''"
  by (simp add: verifyEnvelope_def handleIncoming_def addMessage_def toy_pgp_def armored_def
        toy_stringify_def noon_def ready_def)

text \<open>
  C4, amended. For every payload other than \<^verbatim>\<open>null\<close> and \<^verbatim>\<open>undefined\<close> the handler
  returns normally and takes exactly one of three ways, each of which appends one entry
  from the peer to \<open>messages\<close>. For a string the entry holds the string and
  \<^verbatim>\<open>verified = false\<close>. Otherwise, when \<^verbatim>\<open>text\<close>, \<^verbatim>\<open>signature\<close> and \<^verbatim>\<open>publicKey\<close> (own or
  inherited) are all truthy, verification is attempted: the entry holds
  \<^verbatim>\<open>payload.text\<close> and \<^verbatim>\<open>verified\<close> tells whether verification went through, and the
  status becomes the mismatch advisory when it did and the fingerprint is not the
  connection's \<^verbatim>\<open>.peer\<close>. Otherwise the entry holds the \<^verbatim>\<open>JSON.stringify\<close> text of the
  payload and \<^verbatim>\<open>verified = false\<close>. In the first and the last way the crypto record
  plays no part, and nothing but \<open>messages\<close> changes.
\<close>

theorem decode_by_truthiness:
  assumes "data \<noteq> JNull" and "data \<noteq> JUndefined"
  shows "\<exists>text signature publicKey.
           getProp data ''text'' = Inr text \<and> getProp data ''signature'' = Inr signature \<and>
           getProp data ''publicKey'' = Inr publicKey \<and>
           handleIncoming pgp stringify peer data s st =
             (if (\<exists>t. data = JStr t)
              then Inr (st\<lparr>messages := messages st @
                          [\<lparr>msg_id = fresh_id s, msg_sender = Peer, msg_text = data,
                            msg_timestamp = now s, msg_verified = Some False\<rparr>]\<rparr>)
              else if truthy text \<and> truthy signature \<and> truthy publicKey
              then Inr (st\<lparr>statusMessage :=
                            (if verifyEnvelope pgp text signature publicKey \<in> {None, Some peer}
                             then statusMessage st else ''Peer fingerprint mismatch.''),
                          messages := messages st @
                          [\<lparr>msg_id = fresh_id s, msg_sender = Peer, msg_text = text,
                            msg_timestamp = now s,
                            msg_verified =
                              Some (verifyEnvelope pgp text signature publicKey \<noteq> None)\<rparr>]\<rparr>)
              else Inr (st\<lparr>messages := messages st @
                          [\<lparr>msg_id = fresh_id s, msg_sender = Peer,
                            msg_text = JStr (stringify data),
                            msg_timestamp = now s, msg_verified = Some False\<rparr>]\<rparr>))"
proof -
  from assms have
    p: "getProp data ''text'' = Inr (chainLookup data ''text'')"
       "getProp data ''signature'' = Inr (chainLookup data ''signature'')"
       "getProp data ''publicKey'' = Inr (chainLookup data ''publicKey'')"
    by (simp_all add: getProp_defined)
  show ?thesis
  proof (cases "\<exists>x. data = JStr x")
    case True
    with p show ?thesis by (auto simp: handleIncoming_def addMessage_def)
  next
    case False
    with p show ?thesis
      by (cases data) (auto simp: handleIncoming_def addMessage_def split: option.splits)
  qed
qed

theorem decode_by_truthiness_witness:
  "handleIncoming toy_pgp toy_stringify ''fp-alice''
     (JObj [] (JObj [(''text'', JStr ''hello''), (''signature'', JStr ''sig:alice:hello''),
                     (''publicKey'', JStr ''alice'')] JNull)) noon ready =
   Inr (ready\<lparr>messages :=
          [\<lparr>msg_id = ''1-a'', msg_sender = Peer, msg_text = JStr ''hello'',
            msg_timestamp = 1, msg_verified = Some True\<rparr>]\<rparr>)"
  using decode_by_truthiness [of
      "JObj [] (JObj [(''text'', JStr ''hello''), (''signature'', JStr ''sig:alice:hello''),
                      (''publicKey'', JStr ''alice'')] JNull)"
      toy_pgp toy_stringify "''fp-alice''" noon ready]
  by (simp add: verifyEnvelope_def toy_pgp_def armored_def noon_def ready_def)

text \<open>
  C10. An object in which one of \<^verbatim>\<open>text\<close>, \<^verbatim>\<open>signature\<close>, \<^verbatim>\<open>publicKey\<close> reads as a falsy
  value (the empty string, \<^verbatim>\<open>0\<close>, \<^verbatim>\<open>false\<close>, \<^verbatim>\<open>null\<close>, \<^verbatim>\<open>undefined\<close>) gets one entry in
  \<open>messages\<close>: from the peer, holding the \<^verbatim>\<open>JSON.stringify\<close> text of the object, with
  \<^verbatim>\<open>verified = false\<close>. Nothing else changes, and the result does not depend on the
  crypto record: no verification takes place.
\<close>

theorem falsy_field_is_malformed:
  assumes "k \<in> {''text'', ''signature'', ''publicKey''}"
    and "getProp (JObj own proto) k = Inr v" and "\<not> truthy v"
  shows "handleIncoming pgp stringify peer (JObj own proto) s st =
           Inr (st\<lparr>messages := messages st @
                  [\<lparr>msg_id = fresh_id s, msg_sender = Peer,
                    msg_text = JStr (stringify (JObj own proto)),
                    msg_timestamp = now s, msg_verified = Some False\<rparr>]\<rparr>)"
  using assms by (auto simp: handleIncoming_def addMessage_def)

theorem falsy_field_is_malformed_witness:
  "handleIncoming toy_pgp toy_stringify ''fp-alice''
     (JObj [(''text'', JStr ''hello''), (''signature'', JStr []),
            (''publicKey'', JStr ''alice'')] JNull) noon ready =
   Inr (ready\<lparr>messages :=
          [\<lparr>msg_id = ''1-a'', msg_sender = Peer, msg_text = JStr ''[json]'',
            msg_timestamp = 1, msg_verified = Some False\<rparr>]\<rparr>)"
  using falsy_field_is_malformed [of "''signature''"
      "[(''text'', JStr ''hello''), (''signature'', JStr []), (''publicKey'', JStr ''alice'')]"
      JNull "JStr []" toy_pgp toy_stringify "''fp-alice''" noon ready]
  by (simp add: toy_stringify_def noon_def ready_def)

subsection \<open>Verification\<close>

text \<open>The \<^verbatim>\<open>try\<close> block ends in the \<^verbatim>\<open>catch\<close> exactly when one of its steps fails.\<close>

lemma verifyEnvelope_None_iff:
  "verifyEnvelope pgp t g k = None \<longleftrightarrow>
     createMessage pgp t = None \<or> readSignature pgp g = None \<or> readKey pgp k = None \<or>
     (\<exists>m sg pk. createMessage pgp t = Some m \<and> readSignature pgp g = Some sg \<and>
        readKey pgp k = Some pk \<and>
        (verify pgp m sg pk = None \<or> verify pgp m sg pk = Some [] \<or>
         (\<exists>rest. verify pgp m sg pk = Some (Rejected # rest)) \<or>
         (\<exists>b rest. verify pgp m sg pk = Some (Resolved b # rest) \<and> getFingerprint pgp pk = None)))"
  by (auto simp: verifyEnvelope_def split: option.splits list.splits promise.splits)



text \<open>
  C3. For an envelope, when any step of the verification throws or rejects (building
  the message, parsing the signature, parsing the key, the \<^verbatim>\<open>verify\<close> call, taking the
  first entry of \<^verbatim>\<open>signatures\<close>, awaiting \<^verbatim>\<open>verified\<close>, reading the fingerprint), the
  handler still returns normally, and its whole effect is one more entry in \<open>messages\<close>:
  from the peer, with the envelope's text and \<^verbatim>\<open>verified = false\<close>.
\<close>

theorem verification_failure_degrades:
  assumes "getProp (JObj own proto) ''text'' = Inr text" and "truthy text"
    and "getProp (JObj own proto) ''signature'' = Inr signature" and "truthy signature"
    and "getProp (JObj own proto) ''publicKey'' = Inr publicKey" and "truthy publicKey"
    and "createMessage pgp text = None \<or> readSignature pgp signature = None \<or>
         readKey pgp publicKey = None \<or>
         (\<exists>m sg pk. createMessage pgp text = Some m \<and> readSignature pgp signature = Some sg \<and>
            readKey pgp publicKey = Some pk \<and>
            (verify pgp m sg pk = None \<or> verify pgp m sg pk = Some [] \<or>
             (\<exists>rest. verify pgp m sg pk = Some (Rejected # rest)) \<or>
             (\<exists>b rest. verify pgp m sg pk = Some (Resolved b # rest) \<and>
                getFingerprint pgp pk = None)))"
  shows "handleIncoming pgp stringify peer (JObj own proto) s st =
           Inr (st\<lparr>messages := messages st @
                  [\<lparr>msg_id = fresh_id s, msg_sender = Peer, msg_text = text,
                    msg_timestamp = now s, msg_verified = Some False\<rparr>]\<rparr>)"
proof -
  from assms(7) have "verifyEnvelope pgp text signature publicKey = None"
    by (simp only: verifyEnvelope_None_iff)
  with assms(1-6) show ?thesis
    by (simp add: handleIncoming_def addMessage_def)
qed

theorem verification_failure_degrades_witness:
  "handleIncoming toy_pgp toy_stringify ''fp-alice''
     (JObj [(''text'', JStr ''hello''), (''signature'', JStr ''garbage''),
            (''publicKey'', JStr ''alice'')] JNull) noon ready =
   Inr (ready\<lparr>messages :=
          [\<lparr>msg_id = ''1-a'', msg_sender = Peer, msg_text = JStr ''hello'',
            msg_timestamp = 1, msg_verified = Some False\<rparr>]\<rparr>)"
  using verification_failure_degrades [of
      "[(''text'', JStr ''hello''), (''signature'', JStr ''garbage''),
        (''publicKey'', JStr ''alice'')]" JNull
      "JStr ''hello''" "JStr ''garbage''" "JStr ''alice''" toy_pgp toy_stringify
      "''fp-alice''" noon ready]
  by (simp add: toy_pgp_def armored_def noon_def ready_def)

subsection \<open>Round trip\<close>

text \<open>
  C1 as stated fails at the empty text: with a keypair under which signing and
  verification both succeed, \<^verbatim>\<open>handleSendMessage\<close> sends the envelope, and the receiving
  handler, whose connection has the sender's fingerprint as \<^verbatim>\<open>.peer\<close>, logs the JSON
  text of the envelope with \<^verbatim>\<open>verified = false\<close> and never verifies it.
\<close>

theorem round_trip_empty_text_counterexample:
  "calls (handleSendMessage toy_pgp [] noon (talking ''fp-bob'')) =
     [Connect ''fp-bob'',
      Send 0 (JObj [(''text'', JStr []), (''signature'', JStr ''sig:alice:''),
                    (''publicKey'', JStr ''alice'')] JNull)]
   \<and> verifyEnvelope toy_pgp (JStr []) (JStr ''sig:alice:'') (JStr ''alice'') = Some ''fp-alice''
   \<and> handleIncoming toy_pgp toy_stringify ''fp-alice''
         (JObj [(''text'', JStr []), (''signature'', JStr ''sig:alice:''),
                (''publicKey'', JStr ''alice'')] JNull) noon ready
       = Inr (ready\<lparr>messages :=
                [\<lparr>msg_id = ''1-a'', msg_sender = Peer, msg_text = JStr ''[json]'',
                  msg_timestamp = 1, msg_verified = Some False\<rparr>]\<rparr>)"
  by (simp add: handleSendMessage_def sendSigned_def signedPayload_def addMessage_def
        verifyEnvelope_def handleIncoming_def toy_pgp_def toy_keys_def armored_def
        toy_stringify_def talking_def ready_def is_open_def noon_def)

text \<open>
  \<^verbatim>\<open>MessageComposer\<close> never passes a blank text on: the case above is not reached from
  the input field.
\<close>

lemma composer_never_sends_blank:
  "trim text = [] \<Longrightarrow> handleSubmit pgp text s st = st"
  by (simp add: handleSubmit_def)

text \<open>
  C1, amended to non-empty texts. Let the keypair be valid for the library: its
  private key parses, signing \<open>text\<close> yields a non-empty armored signature, the armored
  public key is non-empty and parses, signature and key verify, and \<open>identifier\<close> is the
  key's fingerprint. Then \<^verbatim>\<open>handleSendMessage\<close> on an open connection sends a payload
  for which the handler of a connection whose \<^verbatim>\<open>.peer\<close> is \<open>identifier\<close> adds one entry
  to \<open>messages\<close>, from the peer, with the text and \<^verbatim>\<open>verified = true\<close>, and changes
  nothing else: the status stays, no advisory.
\<close>

theorem round_trip_nonempty_text:
  assumes "text \<noteq> []"
    and "connectionRef sender_st = Some c" and "is_open sender_st c"
    and "keypair sender_st = Some kp"
    and "readPrivateKey pgp (JStr (privateKeyArmored kp)) = Some privateKey"
    and "createMessage pgp (JStr text) = Some message"
    and "sign pgp message privateKey = Some armoredSignature" and "armoredSignature \<noteq> []"
    and "publicKeyArmored kp \<noteq> []"
    and "readSignature pgp (JStr armoredSignature) = Some signature"
    and "readKey pgp (JStr (publicKeyArmored kp)) = Some publicKey"
    and "verify pgp message signature publicKey = Some (Resolved b # rest)"
    and "getFingerprint pgp publicKey = Some identifier"
  shows "\<exists>payload.
           calls (handleSendMessage pgp text s sender_st) = calls sender_st @ [Send c payload] \<and>
           handleIncoming pgp stringify identifier payload s' st =
             Inr (st\<lparr>messages := messages st @
                    [\<lparr>msg_id = fresh_id s', msg_sender = Peer, msg_text = JStr text,
                      msg_timestamp = now s', msg_verified = Some True\<rparr>]\<rparr>)"
proof -
  let ?payload = "JObj [(''text'', JStr text), (''signature'', JStr armoredSignature),
                        (''publicKey'', JStr (publicKeyArmored kp))] JNull"
  from assms(5-7) have enc: "signedPayload pgp kp text = Some ?payload"
    by (simp add: signedPayload_def)
  with assms(2-4)
  have sent: "calls (handleSendMessage pgp text s sender_st) = calls sender_st @ [Send c ?payload]"
    by (simp add: handleSendMessage_def sendSigned_def addMessage_def)
  from assms(6,10-13)
  have "verifyEnvelope pgp (JStr text) (JStr armoredSignature) (JStr (publicKeyArmored kp))
          = Some identifier"
    by (simp add: verifyEnvelope_def)
  with assms(1,8,9)
  have "handleIncoming pgp stringify identifier ?payload s' st =
          Inr (st\<lparr>messages := messages st @
                 [\<lparr>msg_id = fresh_id s', msg_sender = Peer, msg_text = JStr text,
                   msg_timestamp = now s', msg_verified = Some True\<rparr>]\<rparr>)"
    by (simp add: handleIncoming_def addMessage_def)
  with sent show ?thesis by blast
qed

theorem round_trip_nonempty_text_witness:
  "\<exists>payload.
     calls (handleSendMessage toy_pgp ''hi'' noon (talking ''fp-bob'')) =
       [Connect ''fp-bob'', Send 0 payload] \<and>
     handleIncoming toy_pgp toy_stringify ''fp-alice'' payload noon ready =
       Inr (ready\<lparr>messages :=
              [\<lparr>msg_id = ''1-a'', msg_sender = Peer, msg_text = JStr ''hi'',
                msg_timestamp = 1, msg_verified = Some True\<rparr>]\<rparr>)"
  using round_trip_nonempty_text [of "''hi''" "talking ''fp-bob''" 0 toy_keys toy_pgp
      "''alice''" "''hi''" "''sig:alice:hi''" "''alice:hi''" "''alice''" True "[]"
      "''fp-alice''" noon toy_stringify noon ready]
  by (simp add: talking_def ready_def is_open_def toy_pgp_def armored_def toy_keys_def noon_def)

section \<open>Outbound messages\<close>

text \<open>
  C8. Without a tracked connection handle, or with one whose \<^verbatim>\<open>.open\<close> is false,
  \<^verbatim>\<open>handleSendMessage\<close> returns the state as it got it: no call on the transport, no
  chat entry, no other change.
\<close>

theorem send_gated_on_open:
  assumes "connectionRef st = None \<or> (\<exists>c. connectionRef st = Some c \<and> \<not> is_open st c)"
  shows "handleSendMessage pgp text s st = st"
  using assms by (auto simp: handleSendMessage_def)

theorem send_gated_on_open_witness:
  "handleSendMessage toy_pgp ''hi'' noon ready = ready"
  using send_gated_on_open [of ready toy_pgp "''hi''" noon]
  by (simp add: ready_def)

text \<open>
  C7 as stated fails in one word: the advisory is not transient. After a signing
  failure no timeout is pending, so a timer firing leaves the status where it is; the
  status stays until another handler sets it. Copying the peer id, by contrast,
  schedules the callback that clears its advisory.
\<close>

theorem failed_to_sign_stays_counterexample:
  "statusMessage (handleSendMessage toy_pgp ''hi'' noon corrupt_key) = ''Failed to sign message.''
   \<and> timeouts (handleSendMessage toy_pgp ''hi'' noon corrupt_key) = []
   \<and> onTimeout (handleSendMessage toy_pgp ''hi'' noon corrupt_key) =
       handleSendMessage toy_pgp ''hi'' noon corrupt_key
   \<and> timeouts (handleCopyPeerId True corrupt_key) = [2000]
   \<and> statusMessage (onTimeout (handleCopyPeerId True corrupt_key)) = []"
  by (simp add: handleSendMessage_def sendSigned_def signedPayload_def onTimeout_def
        handleCopyPeerId_def corrupt_key_def talking_def ready_def is_open_def toy_pgp_def
        armored_def)

text \<open>
  C7, amended. Past the guard, when parsing the private key, building the message or
  signing throws, the only effect of \<^verbatim>\<open>handleSendMessage\<close> is the status
  \<^verbatim>\<open>Failed to sign message.\<close>, for which no timeout is scheduled: nothing is sent, no
  entry is appended, and the connected flag, the connection handle and the log stay as
  they were.
\<close>

theorem signing_failure_drops_message:
  assumes "connectionRef st = Some c" and "is_open st c" and "keypair st = Some kp"
    and "readPrivateKey pgp (JStr (privateKeyArmored kp)) = None \<or>
         createMessage pgp (JStr text) = None \<or>
         (\<exists>privateKey message.
            readPrivateKey pgp (JStr (privateKeyArmored kp)) = Some privateKey \<and>
            createMessage pgp (JStr text) = Some message \<and>
            sign pgp message privateKey = None)"
  shows "handleSendMessage pgp text s st = st\<lparr>statusMessage := ''Failed to sign message.''\<rparr>
         \<and> timeouts (handleSendMessage pgp text s st) = timeouts st
         \<and> calls (handleSendMessage pgp text s st) = calls st
         \<and> messages (handleSendMessage pgp text s st) = messages st
         \<and> isConnected (handleSendMessage pgp text s st) = isConnected st
         \<and> connectionRef (handleSendMessage pgp text s st) = connectionRef st"
proof -
  from assms(4) have "signedPayload pgp kp text = None"
    by (auto simp: signedPayload_def split: option.splits)
  with assms(1-3) show ?thesis
    by (simp add: handleSendMessage_def sendSigned_def)
qed

theorem signing_failure_drops_message_witness:
  "handleSendMessage toy_pgp ''hi'' noon corrupt_key =
     corrupt_key\<lparr>statusMessage := ''Failed to sign message.''\<rparr>"
  using signing_failure_drops_message [of corrupt_key 0
      "\<lparr>publicKeyArmored = ''alice'', privateKeyArmored = []\<rparr>" toy_pgp "''hi''" noon]
  by (simp add: corrupt_key_def talking_def ready_def is_open_def toy_pgp_def armored_def)

text \<open>
  C9. Past the guard, when signing succeeds, the payload is sent on the tracked handle
  and \<open>messages\<close> gets one entry from \<^verbatim>\<open>me\<close> with the text and \<^verbatim>\<open>verified = true\<close>;
  nothing else changes. The result is the same whatever the library's signature
  parser, key parser, verifier and fingerprint are: nothing is verified on the way.
\<close>

theorem own_messages_stamped_verified:
  assumes "connectionRef st = Some c" and "is_open st c" and "keypair st = Some kp"
    and "signedPayload pgp kp text = Some payload"
  shows "handleSendMessage pgp text s st =
           st\<lparr>calls := calls st @ [Send c payload],
              messages := messages st @
                [\<lparr>msg_id = fresh_id s, msg_sender = Me, msg_text = JStr text,
                  msg_timestamp = now s, msg_verified = Some True\<rparr>]\<rparr>
         \<and> handleSendMessage
             (pgp\<lparr>readSignature := rs, readKey := rk, verify := vf, getFingerprint := gf\<rparr>)
             text s st
           = handleSendMessage pgp text s st"
proof -
  have "signedPayload
          (pgp\<lparr>readSignature := rs, readKey := rk, verify := vf, getFingerprint := gf\<rparr>) kp text
        = signedPayload pgp kp text"
    by (simp add: signedPayload_def cong: option.case_cong)
  with assms show ?thesis
    by (simp add: handleSendMessage_def sendSigned_def addMessage_def)
qed

theorem own_messages_stamped_verified_witness:
  "handleSendMessage toy_pgp ''hi'' noon (talking ''fp-bob'') =
     (talking ''fp-bob'')
       \<lparr>calls := [Connect ''fp-bob'',
           Send 0 (JObj [(''text'', JStr ''hi''), (''signature'', JStr ''sig:alice:hi''),
                         (''publicKey'', JStr ''alice'')] JNull)],
        messages :=
          [\<lparr>msg_id = ''1-a'', msg_sender = Me, msg_text = JStr ''hi'',
            msg_timestamp = 1, msg_verified = Some True\<rparr>]\<rparr>"
  using own_messages_stamped_verified [of "talking ''fp-bob''" 0 toy_keys toy_pgp "''hi''"
      "JObj [(''text'', JStr ''hi''), (''signature'', JStr ''sig:alice:hi''),
             (''publicKey'', JStr ''alice'')] JNull" noon]
  by (simp add: talking_def ready_def is_open_def toy_pgp_def armored_def toy_keys_def
        signedPayload_def noon_def)

section \<open>Connection lifecycle\<close>

text \<open>
  What the program does for the connection it tracks: when that one is open, an inbound
  offer closes it, which runs its \<^verbatim>\<open>close\<close> handler, and the new connection, not open
  yet, is the tracked one afterwards. When moreover no other connection was open, none
  is open afterwards.
\<close>

lemma offer_on_tracked_open_connection:
  assumes "connectionRef st = Some c" and "is_open st c"
  shows "deliver pgp stringify st (PeerConnection p) =
           st\<lparr>connections :=
                (connections st @ [\<lparr>conn_peer = p, conn_open = False\<rparr>])
                  [c := (connections st ! c)\<lparr>conn_open := False\<rparr>],
              calls := calls st @ [Close c],
              isConnected := False, isConnecting := False,
              statusMessage := ''Connection closed.'',
              targetPeerId := p,
              connectionRef := Some (length (connections st))\<rparr>"
proof -
  from assms(2) have c: "c < length (connections st)" and o: "conn_open (connections st ! c)"
    by (simp_all add: is_open_def)
  show ?thesis
    using assms(1) c o
    by (simp add: deliver_def new_connection_def onPeerConnection_def close_if_open_def
          close_def is_open_def set_open_def onClose_def attachConnection_def Let_def
          nth_append)
qed

lemma offer_leaves_none_open:
  assumes "connectionRef st = Some c" and "is_open st c" and "\<forall>d. is_open st d \<longrightarrow> d = c"
  shows "\<not> is_open (deliver pgp stringify st (PeerConnection p)) d"
proof -
  from assms(2) have c: "c < length (connections st)"
    by (simp add: is_open_def)
  from assms(3) have others: "\<And>e. e < length (connections st) \<Longrightarrow> e \<noteq> c \<Longrightarrow>
      \<not> conn_open (connections st ! e)"
    by (auto simp: is_open_def)
  show ?thesis
  proof (cases "d = c")
    case True
    with c show ?thesis
      by (simp add: offer_on_tracked_open_connection [OF assms(1,2)] is_open_def nth_append)
  next
    case False
    with c others [of d] show ?thesis
      by (auto simp: offer_on_tracked_open_connection [OF assms(1,2)] is_open_def nth_append
            nth_list_update)
  qed
qed

text \<open>
  C5 does not hold of the program, which closes the tracked connection only, and only
  when it is open. After \<open>pending_replaced\<close> the first connection is open and the
  program shows itself connected, while \<^verbatim>\<open>connectionRef\<close> holds the second, still
  pending one. A further inbound offer then calls \<^verbatim>\<open>close()\<close> on nothing (there is no
  call on the transport at all), and once the new connection opens, two connections
  are open together.
\<close>

theorem replaced_pending_connection_stays_open:
  "isConnected (deliver_all toy_pgp toy_stringify pending_replaced ready)
   \<and> is_open (deliver_all toy_pgp toy_stringify pending_replaced ready) 0
   \<and> connectionRef (deliver_all toy_pgp toy_stringify pending_replaced ready) = Some 1
   \<and> calls (deliver_all toy_pgp toy_stringify
              (pending_replaced @ [PeerConnection ''fp-dave'']) ready) = []
   \<and> is_open (deliver_all toy_pgp toy_stringify
                (pending_replaced @ [PeerConnection ''fp-dave'', ConnOpen 2]) ready) 0
   \<and> is_open (deliver_all toy_pgp toy_stringify
                (pending_replaced @ [PeerConnection ''fp-dave'', ConnOpen 2]) ready) 2"
  by (simp add: pending_replaced_def deliver_all_def deliver_def new_connection_def
        onPeerConnection_def close_if_open_def attachConnection_def onOpen_def set_open_def
        is_open_def close_def ready_def Let_def)

text \<open>
  C6 as stated fails for the endpoint: its \<^verbatim>\<open>error\<close> handler shows the message and
  leaves the connection handle and the connected flag alone.
\<close>

theorem endpoint_error_keeps_connection_counterexample:
  "connectionRef (deliver toy_pgp toy_stringify (talking ''fp-bob'') (PeerError ''lost'')) = Some 0
   \<and> isConnected (deliver toy_pgp toy_stringify (talking ''fp-bob'') (PeerError ''lost''))
   \<and> statusMessage (deliver toy_pgp toy_stringify (talking ''fp-bob'') (PeerError ''lost''))
       = ''lost''"
  by (simp add: deliver_def onPeerError_def talking_def ready_def)

text \<open>
  C6, amended. An error of the endpoint only sets the status, to the error's message
  or to \<^verbatim>\<open>Peer error.\<close> when that is empty. An error of a connection sets the status to
  the error's message, or to \<^verbatim>\<open>Connection error.\<close> when that is empty, clears the
  connection handle and resets the connected and connecting flags; nothing else changes.
\<close>

theorem error_transitions:
  "deliver pgp stringify st (PeerError m) =
     st\<lparr>statusMessage := (if m = [] then ''Peer error.'' else m)\<rparr>
   \<and> (c < length (connections st) \<longrightarrow>
        deliver pgp stringify st (ConnError c m) =
          st\<lparr>isConnected := False, isConnecting := False,
             statusMessage := (if m = [] then ''Connection error.'' else m),
             connectionRef := None\<rparr>)"
  by (simp add: deliver_def onPeerError_def onError_def)

theorem error_transitions_witness:
  "deliver toy_pgp toy_stringify (talking ''fp-bob'') (ConnError 0 ''lost'') =
     (talking ''fp-bob'')\<lparr>isConnected := False, isConnecting := False,
        statusMessage := ''lost'', connectionRef := None\<rparr>"
  using error_transitions [of toy_pgp toy_stringify "talking ''fp-bob''" "''lost''" 0]
  by (simp add: talking_def ready_def)

end
